theory Spec2Isabelle
  imports Complex_Main
begin

section \<open>Strings and the regular expressions of generate\_map.py\<close>

text \<open>
  A Python \<open>str\<close> is a sequence of Unicode code points, so a string is a list of code
  points here (the euro sign of the listing texts is U+20AC and does not fit a byte).
  \<open>ustr\<close> turns an ASCII literal into such a list.
\<close>

type_synonym ustring = "nat list"

definition ustr :: "string \<Rightarrow> ustring" where
  "ustr s = map of_char s"

text \<open>
  The character tables of Python's Unicode database that the source relies on.
  White space (\<open>\s\<close> of \<open>re\<close>, \<open>str.strip\<close>) is the fixed list of CPython's
  \<open>Py_UNICODE_ISSPACE\<close> and is written out. The tables of decimal digits (\<open>\d\<close>),
  of alphanumerics (\<open>\w\<close>, which decides \<open>\b\<close>) and of the case mappings are written out
  for ASCII; beyond ASCII they belong to the interpreter and are a parameter of the model,
  as is the text \<open>repr\<close> gives a float (what \<open>csv.writer\<close> writes for a number).
\<close>

record pyrt =
  u_decimal :: "nat \<Rightarrow> bool"
  u_alnum :: "nat \<Rightarrow> bool"
  u_lower :: "ustring \<Rightarrow> ustring"
  u_upper :: "ustring \<Rightarrow> ustring"
  float_repr :: "real \<Rightarrow> ustring"

definition is_space :: "nat \<Rightarrow> bool" where
  "is_space c \<longleftrightarrow>
     (9 \<le> c \<and> c \<le> 13) \<or> (28 \<le> c \<and> c \<le> 32) \<or> c = 133 \<or> c = 160 \<or> c = 5760 \<or>
     (8192 \<le> c \<and> c \<le> 8202) \<or> c = 8232 \<or> c = 8233 \<or> c = 8239 \<or> c = 8287 \<or> c = 12288"

definition is_digit :: "pyrt \<Rightarrow> nat \<Rightarrow> bool" where
  "is_digit U c = (if c < 128 then 48 \<le> c \<and> c \<le> 57 else u_decimal U c)"

definition is_upper_AZ :: "nat \<Rightarrow> bool" where
  "is_upper_AZ c \<longleftrightarrow> 65 \<le> c \<and> c \<le> 90"

definition is_lower_az :: "nat \<Rightarrow> bool" where
  "is_lower_az c \<longleftrightarrow> 97 \<le> c \<and> c \<le> 122"

definition is_word :: "pyrt \<Rightarrow> nat \<Rightarrow> bool" where
  "is_word U c =
     (if c < 128 then (48 \<le> c \<and> c \<le> 57) \<or> is_upper_AZ c \<or> is_lower_az c \<or> c = 95
      else u_alnum U c)"

text \<open>
  \<open>[A-Z]\<close> under \<open>re.IGNORECASE\<close> on a \<open>str\<close> pattern: the 52 ASCII letters and the
  four letters whose case folding lands in the range (U+0130, U+0131, U+017F, U+212A).
\<close>

definition is_AZ_ignorecase :: "nat \<Rightarrow> bool" where
  "is_AZ_ignorecase c \<longleftrightarrow>
     is_upper_AZ c \<or> is_lower_az c \<or> c = 304 \<or> c = 305 \<or> c = 383 \<or> c = 8490"

definition str_lower :: "pyrt \<Rightarrow> ustring \<Rightarrow> ustring" where
  "str_lower U s =
     (if list_all (\<lambda>c. c < 128) s then map (\<lambda>c. if is_upper_AZ c then c + 32 else c) s
      else u_lower U s)"

definition str_upper :: "pyrt \<Rightarrow> ustring \<Rightarrow> ustring" where
  "str_upper U s =
     (if list_all (\<lambda>c. c < 128) s then map (\<lambda>c. if is_lower_az c then c - 32 else c) s
      else u_upper U s)"

text \<open>
  The patterns of the source are sequences of character classes under a greedy bounded
  repetition, some of them capturing, and of \<open>\b\<close>. \<open>Rep cls lo hi\<close> is \<open>cls{lo,hi}\<close>
  (\<open>hi = None\<close> for no upper bound), \<open>Cap\<close> the same inside a capturing group, \<open>Bnd\<close>
  is \<open>\b\<close>.
\<close>

datatype item =
  Rep "nat \<Rightarrow> bool" nat "nat option"
| Cap "nat \<Rightarrow> bool" nat "nat option"
| Bnd

definition Lit :: "nat \<Rightarrow> item" where
  "Lit x = Rep (\<lambda>c. c = x) 1 (Some 1)"

definition lits :: "string \<Rightarrow> item list" where
  "lits s = map (\<lambda>c. Lit (of_char c)) s"

definition run_len :: "(nat \<Rightarrow> bool) \<Rightarrow> nat option \<Rightarrow> ustring \<Rightarrow> nat" where
  "run_len cls hi s =
     (let n = length (takeWhile cls s) in case hi of None \<Rightarrow> n | Some h \<Rightarrow> min h n)"

text \<open>Greedy choice with backtracking: the longest repetition first, then shorter ones.\<close>

primrec first_down :: "(nat \<Rightarrow> 'a option) \<Rightarrow> nat \<Rightarrow> nat \<Rightarrow> 'a option" where
  "first_down f lo 0 = (if 0 < lo then None else f 0)"
| "first_down f lo (Suc n) =
     (if Suc n < lo then None
      else case f (Suc n) of Some r \<Rightarrow> Some r | None \<Rightarrow> first_down f lo n)"

definition prev_after :: "nat option \<Rightarrow> ustring \<Rightarrow> nat \<Rightarrow> nat option" where
  "prev_after p s k = (if k = 0 then p else Some (s ! (k - 1)))"

definition at_boundary :: "(nat \<Rightarrow> bool) \<Rightarrow> nat option \<Rightarrow> ustring \<Rightarrow> bool" where
  "at_boundary w p s \<longleftrightarrow>
     (case p of None \<Rightarrow> False | Some c \<Rightarrow> w c) \<noteq> (case s of [] \<Rightarrow> False | c # _ \<Rightarrow> w c)"

text \<open>
  \<open>match_here w its p s\<close> matches the items at the start of \<open>s\<close>, where \<open>p\<close> is the
  character before \<open>s\<close> (\<open>None\<close> at the start of the text) and \<open>w\<close> the word characters.
  It returns the captured groups in order and the text after the match.
\<close>

fun match_here ::
  "(nat \<Rightarrow> bool) \<Rightarrow> item list \<Rightarrow> nat option \<Rightarrow> ustring \<Rightarrow> (ustring list \<times> ustring) option" where
  "match_here w [] p s = Some ([], s)"
| "match_here w (Bnd # its) p s = (if at_boundary w p s then match_here w its p s else None)"
| "match_here w (Rep cls lo hi # its) p s =
     first_down (\<lambda>k. match_here w its (prev_after p s k) (drop k s)) lo (run_len cls hi s)"
| "match_here w (Cap cls lo hi # its) p s =
     first_down (\<lambda>k. case match_here w its (prev_after p s k) (drop k s) of
                        None \<Rightarrow> None
                      | Some (gs, r) \<Rightarrow> Some (take k s # gs, r))
       lo (run_len cls hi s)"

text \<open>\<open>re.search\<close>: the leftmost start at which the pattern matches; the result is the
  start index, the groups and the text after the match.\<close>

fun search_from ::
  "(nat \<Rightarrow> bool) \<Rightarrow> item list \<Rightarrow> nat option \<Rightarrow> ustring \<Rightarrow> nat \<Rightarrow>
     (nat \<times> ustring list \<times> ustring) option" where
  "search_from w its p [] i =
     (case match_here w its p [] of Some (gs, r) \<Rightarrow> Some (i, gs, r) | None \<Rightarrow> None)"
| "search_from w its p (c # cs) i =
     (case match_here w its p (c # cs) of
        Some (gs, r) \<Rightarrow> Some (i, gs, r)
      | None \<Rightarrow> search_from w its (Some c) cs (Suc i))"

definition re_search ::
  "(nat \<Rightarrow> bool) \<Rightarrow> item list \<Rightarrow> ustring \<Rightarrow> (nat \<times> ustring list \<times> ustring) option" where
  "re_search w its s = search_from w its None s 0"

text \<open>A pattern \<open>a|b|...\<close>: the alternatives are tried in order at each start.\<close>

fun match_alt ::
  "(nat \<Rightarrow> bool) \<Rightarrow> item list list \<Rightarrow> nat option \<Rightarrow> ustring \<Rightarrow> (ustring list \<times> ustring) option" where
  "match_alt w [] p s = None"
| "match_alt w (a # as) p s =
     (case match_here w a p s of Some m \<Rightarrow> Some m | None \<Rightarrow> match_alt w as p s)"

text \<open>\<open>re.split(pat, s)[0]\<close> for a pattern that matches no empty string: the text before
  the leftmost match, the whole text when there is none.\<close>

fun re_split_first :: "(nat \<Rightarrow> bool) \<Rightarrow> item list list \<Rightarrow> nat option \<Rightarrow> ustring \<Rightarrow> ustring" where
  "re_split_first w alts p [] = []"
| "re_split_first w alts p (c # cs) =
     (case match_alt w alts p (c # cs) of
        Some m \<Rightarrow> []
      | None \<Rightarrow> c # re_split_first w alts (Some c) cs)"

text \<open>\<open>s.split(sep)[0]\<close> for a non-empty \<open>sep\<close>: the text before the first occurrence of
  \<open>sep\<close>, the whole text when there is none.\<close>

fun str_split_first :: "ustring \<Rightarrow> ustring \<Rightarrow> ustring" where
  "str_split_first sep [] = []"
| "str_split_first sep (c # cs) =
     (if take (length sep) (c # cs) = sep then [] else c # str_split_first sep cs)"

text \<open>\<open>norm\<close>: \<open>re.sub(r"\s+", " ", s).strip()\<close>.\<close>

function sub_spaces :: "ustring \<Rightarrow> ustring" where
  "sub_spaces [] = []"
| "sub_spaces (c # cs) =
     (if is_space c then 32 # sub_spaces (dropWhile is_space cs) else c # sub_spaces cs)"
  by pat_completeness auto
termination
  by (relation "measure length") (auto simp: less_Suc_eq_le length_dropWhile_le)

definition str_strip :: "ustring \<Rightarrow> ustring" where
  "str_strip s = rev (dropWhile is_space (rev (dropWhile is_space s)))"

definition norm :: "ustring \<Rightarrow> ustring" where
  "norm s = str_strip (sub_spaces s)"

section \<open>The listing record\<close>

text \<open>
  The dataclass \<open>Row\<close>. The three geographic fields are \<open>float | None\<close>; floats are
  modelled by reals.
\<close>

record Row =
  scraped_at :: ustring
  source :: ustring
  title :: ustring
  price_text :: ustring
  location_text :: ustring
  since_text :: ustring
  url :: ustring
  municipality :: ustring
  lat :: "real option"
  lon :: "real option"
  distance_km :: "real option"

section \<open>Address parsing\<close>

text \<open>Python's \<open>a or b\<close> on strings: \<open>a\<close> unless it is empty.\<close>

definition str_or :: "ustring \<Rightarrow> ustring \<Rightarrow> ustring" where
  "str_or a b = (if a \<noteq> [] then a else b)"

text \<open>\<open>POSTCODE_RE = re.compile(r"\b(\d{4})\s*([A-Z]{2})\b", re.IGNORECASE)\<close>\<close>

definition POSTCODE_RE :: "pyrt \<Rightarrow> item list" where
  "POSTCODE_RE U =
     [Bnd, Cap (is_digit U) 4 (Some 4), Rep is_space 0 None, Cap is_AZ_ignorecase 2 (Some 2), Bnd]"

text \<open>
  The module defines \<open>extract_postcode\<close> twice. The first definition (lines 263 to 267)
  writes the letters in upper case; the second (lines 299 to 301) rebinds the name and
  is the one every caller reaches at run time, also \<open>extract_street_from_title\<close>, which
  is defined between the two.
\<close>

definition extract_postcode_first :: "pyrt \<Rightarrow> ustring \<Rightarrow> ustring" where
  "extract_postcode_first U text =
     (case re_search (is_word U) (POSTCODE_RE U) text of
        Some (i, g1 # g2 # gs, r) \<Rightarrow> g1 @ ustr '' '' @ str_upper U g2
      | _ \<Rightarrow> [])"

definition extract_postcode :: "pyrt \<Rightarrow> ustring \<Rightarrow> ustring" where
  "extract_postcode U text =
     (case re_search (is_word U) (POSTCODE_RE U) text of
        Some (i, g1 # g2 # gs, r) \<Rightarrow> g1 @ ustr '' '' @ g2
      | _ \<Rightarrow> [])"

text \<open>The class \<open>[A-Za-z\<dots>'`\- ]\<close> of the place pattern, whose third range is U+00C0 to
  U+00FF.\<close>

definition is_place_char :: "nat \<Rightarrow> bool" where
  "is_place_char c \<longleftrightarrow>
     is_upper_AZ c \<or> is_lower_az c \<or> (192 \<le> c \<and> c \<le> 255) \<or> c = 39 \<or> c = 96 \<or> c = 45 \<or> c = 32"

definition PLACE_RE :: "pyrt \<Rightarrow> item list" where
  "PLACE_RE U =
     [Bnd, Rep (is_digit U) 4 (Some 4), Rep is_space 0 None, Rep is_upper_AZ 2 (Some 2),
      Rep is_space 1 None, Cap is_place_char 2 None]"

text \<open>The split pattern of line 280: a euro sign (U+20AC), an area in square metres
  (\<open>m\<close> and U+00B2), \<open>k.k.\<close>, \<open>v.o.n.\<close> or a single capital, each after white space.\<close>

definition PLACE_NOISE :: "pyrt \<Rightarrow> item list list" where
  "PLACE_NOISE U =
     [[Rep is_space 1 None, Lit 8364],
      [Rep is_space 1 None, Rep (is_digit U) 1 None, Rep is_space 0 None, Lit 109, Lit 178],
      Rep is_space 1 None # lits ''k.k.'',
      Rep is_space 1 None # lits ''v.o.n.'',
      [Rep is_space 1 None, Rep is_upper_AZ 1 (Some 1), Rep is_space 1 None]]"

definition extract_place_from_location_text :: "pyrt \<Rightarrow> ustring \<Rightarrow> ustring" where
  "extract_place_from_location_text U loc_text =
     (if loc_text = [] then []
      else case re_search (is_word U) (PLACE_RE U) loc_text of
        Some (i, place # gs, r) \<Rightarrow> norm (re_split_first (is_word U) (PLACE_NOISE U) None place)
      | _ \<Rightarrow> [])"

definition FUNDA_PLACE_RE :: "item list" where
  "FUNDA_PLACE_RE = lits ''funda.nl/detail/koop/'' @ [Cap (\<lambda>c. c \<noteq> 47) 1 None, Lit 47]"

definition extract_place_from_funda_url :: "pyrt \<Rightarrow> ustring \<Rightarrow> ustring" where
  "extract_place_from_funda_url U u =
     (case re_search (is_word U) FUNDA_PLACE_RE (str_lower U u) of
        Some (i, g # gs, r) \<Rightarrow> map (\<lambda>c. if c = 45 then 32 else c) g
      | _ \<Rightarrow> [])"

definition extract_street_from_title :: "pyrt \<Rightarrow> ustring \<Rightarrow> ustring" where
  "extract_street_from_title U t =
     (let pc = extract_postcode U t
      in if pc = [] then [] else norm (str_split_first pc t))"

text \<open>The closing loop of \<open>guess_address_variants\<close>: normalise, drop empty strings and
  strings seen before.\<close>

fun uniq_variants :: "ustring list \<Rightarrow> ustring list \<Rightarrow> ustring set \<Rightarrow> ustring list" where
  "uniq_variants [] out seen = out"
| "uniq_variants (v # vs) out seen =
     (let v' = norm v
      in if v' \<noteq> [] \<and> v' \<notin> seen then uniq_variants vs (out @ [v']) (insert v' seen)
         else uniq_variants vs out seen)"

definition guess_address_variants :: "pyrt \<Rightarrow> 'a Row_scheme \<Rightarrow> ustring list" where
  "guess_address_variants U row =
     (let pc = str_or (extract_postcode U (location_text row)) (extract_postcode U (title row));
          place = str_or (extract_place_from_location_text U (location_text row))
                         (extract_place_from_funda_url U (url row));
          street = extract_street_from_title U (title row);
          variants =
            (if street \<noteq> [] \<and> pc \<noteq> [] \<and> place \<noteq> []
             then [street @ ustr '', '' @ pc @ ustr '' '' @ place @ ustr '', Nederland''] else [])
            @ (if pc \<noteq> [] \<and> place \<noteq> [] then [pc @ ustr '' '' @ place @ ustr '', Nederland''] else [])
            @ (if title row \<noteq> [] then [title row @ ustr '', Nederland''] else [])
            @ (if place \<noteq> [] then [place @ ustr '', Nederland''] else [])
            @ [ustr ''Limburg, Nederland'']
      in uniq_variants variants [] {})"

section \<open>Configuration\<close>

definition CENTER_NAME :: ustring where
  "CENTER_NAME = ustr ''Valkenburg aan de Geul, Nederland''"

definition CENTER_FALLBACK_LATLON :: "real \<times> real" where
  "CENTER_FALLBACK_LATLON = (50.8650, 5.8320)"

definition RADIUS_KM :: real where
  "RADIUS_KM = 100"

definition COLUMNS :: "ustring list" where
  "COLUMNS = map ustr [''scraped_at'', ''source'', ''title'', ''price_text'', ''location_text'',
     ''since_text'', ''url'', ''municipality'', ''lat'', ''lon'', ''distance_km'']"

section \<open>The world outside the process\<close>

text \<open>
  The exceptions that escape the functions modelled here. \<open>GeodesicError\<close> stands
  for whatever \<open>geopy.distance.geodesic\<close> raises on a point it rejects.
\<close>

datatype error = KeyError | TypeError | AttributeError | JSONDecodeError | GeodesicError

text \<open>
  The external collaborators. The geocoder and the reverse geocoder are reached through
  geopy's \<open>RateLimiter\<close>, which returns \<open>None\<close> when the service has no answer or keeps
  failing; an answer may depend on the queries sent before, so each service is a function
  of the earlier queries and the present one. A reverse answer is the \<open>address\<close> member of
  the location's raw data (empty when there is none). \<open>geodesic_km\<close> is geopy's distance
  in kilometres, \<open>None\<close> when it raises; \<open>fetch_svc\<close> is the HTTP fetch, \<open>None\<close> when
  it raises.
\<close>

record services =
  geocode_svc :: "ustring list \<Rightarrow> ustring \<Rightarrow> (real \<times> real) option"
  reverse_svc :: "(real \<times> real) list \<Rightarrow> real \<times> real \<Rightarrow> (ustring \<rightharpoonup> ustring) option"
  geodesic_km :: "real \<times> real \<Rightarrow> real option \<times> real option \<Rightarrow> real option"
  fetch_svc :: "ustring \<Rightarrow> ustring option"

text \<open>
  A value of \<open>geo_cache.json\<close> is an object with the members \<open>lat\<close> and \<open>lon\<close>, each a
  number or \<open>null\<close> (the \<open>float | None\<close> of \<open>Row\<close>); \<open>GMalformed\<close> is a value that is
  no object or lacks a member, on which the subscripts of lines 370 and 374 raise. A
  value of \<open>reverse_cache.json\<close> is an object that may have the member \<open>municipality\<close>;
  \<open>RMalformed\<close> is a value without the method \<open>get\<close>.
\<close>

datatype geo_entry = GEntry "real option" "real option" | GMalformed

datatype rev_entry = REntry "ustring option" | RMalformed

type_synonym geo_cache = "ustring \<rightharpoonup> geo_entry"

text \<open>The key \<open>f"{lat:.6f},{lon:.6f}"\<close>: per coordinate the sign that is printed and the
  digits, as the number of millionths.\<close>

type_synonym rev_key = "(bool \<times> nat) \<times> (bool \<times> nat)"

type_synonym rev_cache = "rev_key \<rightharpoonup> rev_entry"

datatype 'a json_file = Missing | Invalid | NotDict | Dict 'a

datatype csv_path = OUT_SNAPSHOT_CSV | OUT_NEW_CSV

text \<open>What the process prints, one constructor for each message of the source (the four
  closing lines of \<open>run\<close> are one message).\<close>

datatype msg =
  GeoFail ustring ustring ustring
| GeoSummary nat nat
| WarnNoPoints
| MapWritten
| NoSites
| SkipRobots
| InfoDetailLinks nat
| SiteError
| RunSummary nat nat

record marker =
  m_lat :: "real option"
  m_lon :: "real option"
  m_title :: ustring
  m_price :: ustring
  m_mun :: ustring
  m_dist :: "real option"
  m_url :: ustring
  m_tooltip :: ustring

record map_doc =
  center :: "real \<times> real"
  markers :: "marker list"

text \<open>
  The files the process reads and writes, the queries it has sent and its output. A CSV
  file is the list of its records, each a list of fields.
\<close>

record world =
  geo_file :: "geo_cache json_file"
  rev_file :: "rev_cache json_file"
  csv_files :: "csv_path \<Rightarrow> ustring list list option"
  map_html :: "map_doc option"
  geo_calls :: "ustring list"
  rev_calls :: "(real \<times> real) list"
  stdout :: "msg list"

definition print :: "msg \<Rightarrow> world \<Rightarrow> world" where
  "print m w = w\<lparr>stdout := stdout w @ [m]\<rparr>"

section \<open>Files\<close>

text \<open>\<open>asdict(r)\<close>, with each value as \<open>csv.writer\<close> writes it: \<open>None\<close> as the empty
  string, a float by \<open>repr\<close>.\<close>

definition opt_field :: "pyrt \<Rightarrow> real option \<Rightarrow> ustring" where
  "opt_field U x = (case x of None \<Rightarrow> [] | Some v \<Rightarrow> float_repr U v)"

definition asdict :: "pyrt \<Rightarrow> 'a Row_scheme \<Rightarrow> (ustring \<times> ustring) list" where
  "asdict U r =
     [(ustr ''scraped_at'', scraped_at r), (ustr ''source'', source r), (ustr ''title'', title r),
      (ustr ''price_text'', price_text r), (ustr ''location_text'', location_text r),
      (ustr ''since_text'', since_text r), (ustr ''url'', url r),
      (ustr ''municipality'', municipality r), (ustr ''lat'', opt_field U (lat r)),
      (ustr ''lon'', opt_field U (lon r)), (ustr ''distance_km'', opt_field U (distance_km r))]"

definition csv_record :: "pyrt \<Rightarrow> 'a Row_scheme \<Rightarrow> ustring list" where
  "csv_record U r =
     map (\<lambda>c. case map_of (asdict U r) c of Some v \<Rightarrow> v | None \<Rightarrow> []) COLUMNS"

definition write_csv :: "pyrt \<Rightarrow> csv_path \<Rightarrow> 'a Row_scheme list \<Rightarrow> world \<Rightarrow> world" where
  "write_csv U path rows w =
     w\<lparr>csv_files := (csv_files w)(path := Some (COLUMNS # map (csv_record U) rows))\<rparr>"

text \<open>
  \<open>load_prev_urls\<close>. \<open>csv.DictReader\<close> takes the first record as the field names, skips
  empty records and pairs names with fields, a later name overriding an equal earlier
  one; a name without a field reads \<open>None\<close>, which \<open>or ""\<close> turns into the empty string.
\<close>

definition row_get :: "ustring list \<Rightarrow> ustring list \<Rightarrow> ustring \<Rightarrow> ustring" where
  "row_get names flds k =
     (case map_of (rev (zip names flds)) k of Some v \<Rightarrow> v | None \<Rightarrow> [])"

definition startswith :: "ustring \<Rightarrow> ustring \<Rightarrow> bool" where
  "startswith s pre \<longleftrightarrow> take (length pre) s = pre"

definition load_prev_urls :: "ustring list list option \<Rightarrow> ustring set" where
  "load_prev_urls file =
     (case file of
        None \<Rightarrow> {}
      | Some [] \<Rightarrow> {}
      | Some (names # recs) \<Rightarrow>
          set (map (\<lambda>flds. str_strip (row_get names flds (ustr ''url'')))
                 (filter (\<lambda>flds. startswith (row_get names flds (ustr ''url'')) (ustr ''http''))
                    (filter (\<lambda>flds. flds \<noteq> []) recs))))"

definition load_json_cache :: "('k \<rightharpoonup> 'v) json_file \<Rightarrow> error + ('k \<rightharpoonup> 'v)" where
  "load_json_cache file =
     (case file of
        Missing \<Rightarrow> Inr Map.empty
      | Invalid \<Rightarrow> Inl JSONDecodeError
      | NotDict \<Rightarrow> Inr Map.empty
      | Dict d \<Rightarrow> Inr d)"

section \<open>The geo resolver\<close>

definition geocode :: "services \<Rightarrow> ustring \<Rightarrow> world \<Rightarrow> (real \<times> real) option \<times> world" where
  "geocode E addr w = (geocode_svc E (geo_calls w) addr, w\<lparr>geo_calls := geo_calls w @ [addr]\<rparr>)"

definition reverse ::
  "services \<Rightarrow> real \<times> real \<Rightarrow> world \<Rightarrow> (ustring \<rightharpoonup> ustring) option \<times> world" where
  "reverse E ll w = (reverse_svc E (rev_calls w) ll, w\<lparr>rev_calls := rev_calls w @ [ll]\<rparr>)"

definition get_center_latlon :: "services \<Rightarrow> world \<Rightarrow> (real \<times> real) \<times> world" where
  "get_center_latlon E w =
     (case geocode E CENTER_NAME w of
        (Some loc, w') \<Rightarrow> (loc, w')
      | (None, w') \<Rightarrow> (CENTER_FALLBACK_LATLON, w'))"

text \<open>\<open>geo_cache[key]["lat"], geo_cache[key]["lon"]\<close>\<close>

definition entry_latlon :: "geo_entry \<Rightarrow> error + (real option \<times> real option)" where
  "entry_latlon e = (case e of GEntry la lo \<Rightarrow> Inr (la, lo) | GMalformed \<Rightarrow> Inl KeyError)"

text \<open>Lines 372 to 375: the first address variant that is a key of the cache.\<close>

fun cache_lookup :: "geo_cache \<Rightarrow> ustring list \<Rightarrow> error + (real option \<times> real option) option" where
  "cache_lookup gc [] = Inr None"
| "cache_lookup gc (addr # addrs) =
     (case gc addr of
        None \<Rightarrow> cache_lookup gc addrs
      | Some e \<Rightarrow> (case entry_latlon e of Inl x \<Rightarrow> Inl x | Inr ll \<Rightarrow> Inr (Some ll)))"

text \<open>Lines 379 to 384: the variants are sent to the geocoder until one has an answer.\<close>

fun try_geocode ::
  "services \<Rightarrow> ustring list \<Rightarrow> world \<Rightarrow> (real \<times> real \<times> ustring) option \<times> world" where
  "try_geocode E [] w = (None, w)"
| "try_geocode E (addr # addrs) w =
     (case geocode E addr w of
        (Some (la, lo), w') \<Rightarrow> (Some (la, lo, addr), w')
      | (None, w') \<Rightarrow> try_geocode E addrs w')"

text \<open>
  Lines 366 to 395, the first step of the loop body: the coordinates of a row, \<open>None\<close>
  when the row is given up (\<open>[GEO FAIL]\<close> and \<open>continue\<close>), with the cache and the world
  after the step. A pair read from the cache is a non-empty tuple, so \<open>not latlon\<close> holds
  only when nothing was found there.
\<close>

definition resolve_latlon ::
  "pyrt \<Rightarrow> services \<Rightarrow> Row \<Rightarrow> geo_cache \<Rightarrow> world \<Rightarrow>
     error + ((real option \<times> real option) option \<times> geo_cache \<times> world)" where
  "resolve_latlon U E r gc w =
     (case (case gc (url r) of
              Some e \<Rightarrow> (case entry_latlon e of Inl x \<Rightarrow> Inl x | Inr ll \<Rightarrow> Inr (Some ll))
            | None \<Rightarrow> cache_lookup gc (guess_address_variants U r)) of
        Inl x \<Rightarrow> Inl x
      | Inr (Some latlon) \<Rightarrow> Inr (Some latlon, gc, w)
      | Inr None \<Rightarrow>
          (case try_geocode E (guess_address_variants U r) w of
             (None, w') \<Rightarrow> Inr (None, gc, print (GeoFail (source r) (title r) (url r)) w')
           | (Some (la, lo, used_addr), w') \<Rightarrow>
               (let gc' = gc(url r \<mapsto> GEntry (Some la) (Some lo),
                             used_addr \<mapsto> GEntry (Some la) (Some lo))
                in Inr (Some (Some la, Some lo), gc', w'\<lparr>geo_file := Dict gc'\<rparr>))))"

text \<open>Python's \<open>round(x, 1)\<close> and the \<open>.6f\<close> format round to the nearest, ties to even.\<close>

definition round_half_even :: "real \<Rightarrow> int" where
  "round_half_even x =
     (let f = \<lfloor>x\<rfloor>; d = x - of_int f
      in if d < 1 / 2 then f else if 1 / 2 < d then f + 1 else if even f then f else f + 1)"

definition py_round1 :: "real \<Rightarrow> real" where
  "py_round1 x = of_int (round_half_even (x * 10)) / 10"

definition fmt6 :: "real \<Rightarrow> bool \<times> nat" where
  "fmt6 x = (x < 0, nat (round_half_even (\<bar>x\<bar> * 1000000)))"

text \<open>\<open>addr.get("municipality") or addr.get("city") or ... or ""\<close>\<close>

fun first_truthy :: "(ustring \<rightharpoonup> ustring) \<Rightarrow> ustring list \<Rightarrow> ustring" where
  "first_truthy addr [] = []"
| "first_truthy addr (k # ks) =
     (case addr k of
        Some v \<Rightarrow> if v \<noteq> [] then v else first_truthy addr ks
      | None \<Rightarrow> first_truthy addr ks)"

text \<open>Lines 404 to 427: the municipality of a coordinate, from the reverse cache or the
  reverse geocoder.\<close>

definition municipality_of ::
  "services \<Rightarrow> real \<times> real \<Rightarrow> rev_cache \<Rightarrow> world \<Rightarrow> error + (ustring \<times> rev_cache \<times> world)" where
  "municipality_of E ll rc w =
     (let rev_key = (fmt6 (fst ll), fmt6 (snd ll))
      in case rc rev_key of
           Some (REntry m) \<Rightarrow> Inr (case m of Some v \<Rightarrow> v | None \<Rightarrow> [], rc, w)
         | Some RMalformed \<Rightarrow> Inl AttributeError
         | None \<Rightarrow>
             (case reverse E ll w of
                (None, w') \<Rightarrow> Inr ([], rc, w')
              | (Some addr, w') \<Rightarrow>
                  (let m = first_truthy addr
                             (map ustr [''municipality'', ''city'', ''town'', ''village'', ''county'']);
                       rc' = rc(rev_key \<mapsto> REntry (Some m))
                   in Inr (m, rc', w'\<lparr>rev_file := Dict rc'\<rparr>))))"

text \<open>
  The loop body of \<open>geocode_and_enrich_rows\<close>: the enriched row, or \<open>None\<close> when the row
  is skipped by one of the two \<open>continue\<close>s. The format of line 405 raises on a
  coordinate that is \<open>None\<close>.
\<close>

definition enrich_row ::
  "pyrt \<Rightarrow> services \<Rightarrow> real \<times> real \<Rightarrow> Row \<Rightarrow> geo_cache \<Rightarrow> rev_cache \<Rightarrow> world \<Rightarrow>
     error + (Row option \<times> geo_cache \<times> rev_cache \<times> world)" where
  "enrich_row U E center_latlon r gc rc w =
     (case resolve_latlon U E r gc w of
        Inl x \<Rightarrow> Inl x
      | Inr (None, gc', w') \<Rightarrow> Inr (None, gc', rc, w')
      | Inr (Some (la, lo), gc', w') \<Rightarrow>
          (case geodesic_km E center_latlon (la, lo) of
             None \<Rightarrow> Inl GeodesicError
           | Some dist_km \<Rightarrow>
               if RADIUS_KM < dist_km then Inr (None, gc', rc, w')
               else (case (la, lo) of
                       (Some x, Some y) \<Rightarrow>
                         (case municipality_of E (x, y) rc w' of
                            Inl e \<Rightarrow> Inl e
                          | Inr (m, rc', w'') \<Rightarrow>
                              Inr (Some (r\<lparr>municipality := m, lat := Some x, lon := Some y,
                                            distance_km := Some (py_round1 dist_km)\<rparr>),
                                   gc', rc', w''))
                     | _ \<Rightarrow> Inl TypeError)))"

fun enrich_rows ::
  "pyrt \<Rightarrow> services \<Rightarrow> real \<times> real \<Rightarrow> Row list \<Rightarrow> Row list \<Rightarrow> geo_cache \<Rightarrow> rev_cache \<Rightarrow> world \<Rightarrow>
     error + (Row list \<times> world)" where
  "enrich_rows U E c [] enriched gc rc w = Inr (enriched, w)"
| "enrich_rows U E c (r # rs) enriched gc rc w =
     (case enrich_row U E c r gc rc w of
        Inl e \<Rightarrow> Inl e
      | Inr (None, gc', rc', w') \<Rightarrow> enrich_rows U E c rs enriched gc' rc' w'
      | Inr (Some r', gc', rc', w') \<Rightarrow> enrich_rows U E c rs (enriched @ [r']) gc' rc' w')"

definition geocode_and_enrich_rows ::
  "pyrt \<Rightarrow> services \<Rightarrow> Row list \<Rightarrow> world \<Rightarrow> error + (Row list \<times> world)" where
  "geocode_and_enrich_rows U E rows w =
     (case load_json_cache (geo_file w) of
        Inl e \<Rightarrow> Inl e
      | Inr geo_cache \<Rightarrow>
          (case load_json_cache (rev_file w) of
             Inl e \<Rightarrow> Inl e
           | Inr rev_cache \<Rightarrow>
               (case get_center_latlon E w of
                  (center_latlon, w1) \<Rightarrow>
                    (case enrich_rows U E center_latlon rows [] geo_cache rev_cache w1 of
                       Inl e \<Rightarrow> Inl e
                     | Inr (enriched, w2) \<Rightarrow>
                         Inr (enriched, print (GeoSummary (length enriched) (length rows)) w2)))))"

text \<open>
  What the distance filter leaves of a row, for the centre \<open>c\<close>: both coordinates are
  there, their geodesic distance to the centre is at most the radius, and \<open>distance_km\<close>
  is that distance rounded to one decimal, itself at most the radius.
\<close>

definition in_radius :: "services \<Rightarrow> real \<times> real \<Rightarrow> Row \<Rightarrow> bool" where
  "in_radius E c r \<longleftrightarrow>
     (\<exists>x y d. lat r = Some x \<and> lon r = Some y \<and> geodesic_km E c (Some x, Some y) = Some d \<and>
        d \<le> RADIUS_KM \<and> distance_km r = Some (py_round1 d) \<and> py_round1 d \<le> RADIUS_KM)"

section \<open>The map\<close>

text \<open>\<open>s.strip(" |")\<close>\<close>

definition strip_bar :: "ustring \<Rightarrow> ustring" where
  "strip_bar s =
     rev (dropWhile (\<lambda>c. c = 32 \<or> c = 124) (rev (dropWhile (\<lambda>c. c = 32 \<or> c = 124) s)))"

definition marker_of :: "Row \<Rightarrow> marker" where
  "marker_of r =
     (let mun = str_or (municipality r) (ustr ''Onbekende gemeente'')
      in \<lparr>m_lat = lat r, m_lon = lon r, m_title = title r, m_price = price_text r, m_mun = mun,
          m_dist = distance_km r, m_url = url r,
          m_tooltip = strip_bar (mun @ ustr '' | '' @ price_text r)\<rparr>)"

definition write_map :: "Row list \<Rightarrow> world \<Rightarrow> world" where
  "write_map rows0 w =
     (let rows = filter (\<lambda>r. lat r \<noteq> None \<and> lon r \<noteq> None) rows0
      in if rows = [] then print WarnNoPoints w
         else
           (let avg_lat = sum_list (List.map_filter lat rows) / real (length rows);
                avg_lon = sum_list (List.map_filter lon rows) / real (length rows)
            in print MapWritten
                 (w\<lparr>map_html := Some \<lparr>center = (avg_lat, avg_lon), markers = map marker_of rows\<rparr>\<rparr>)))"

section \<open>Deduplication and the run\<close>

text \<open>
  A Python \<open>dict\<close> keeps its keys in the order of insertion: a list of pairs with distinct
  keys. \<open>setdefault\<close> stores a value only under a key that is not there yet.
\<close>

definition setdefault :: "'k \<Rightarrow> 'v \<Rightarrow> ('k \<times> 'v) list \<Rightarrow> ('k \<times> 'v) list" where
  "setdefault k v d = (if k \<in> fst ` set d then d else d @ [(k, v)])"

text \<open>
  \<open>scrape_search_page\<close>. What the loop body does with one anchor up to line 245 (the
  filters and the texts read from the page through the HTML library) is given by its
  outcome: the \<open>Row\<close> built for the anchor, or \<open>None\<close> when a \<open>continue\<close> skips it.
  Lines 246 to 256 store the row under its URL and return the values of the dictionary.
\<close>

fun scrape_loop :: "Row option list \<Rightarrow> (ustring \<times> Row) list \<Rightarrow> (ustring \<times> Row) list" where
  "scrape_loop [] results = results"
| "scrape_loop (None # as) results = scrape_loop as results"
| "scrape_loop (Some row # as) results = scrape_loop as (setdefault (url row) row results)"

definition scrape_search_page :: "Row option list \<Rightarrow> Row list" where
  "scrape_search_page anchors = map snd (scrape_loop anchors [])"

text \<open>Lines 505 to 509 of \<open>run\<close>.\<close>

fun uniq_loop :: "Row list \<Rightarrow> (ustring \<times> Row) list \<Rightarrow> (ustring \<times> Row) list" where
  "uniq_loop [] uniq = uniq"
| "uniq_loop (r # rs) uniq = uniq_loop rs (setdefault (url r) r uniq)"

definition dedup_rows :: "Row list \<Rightarrow> Row list" where
  "dedup_rows all_rows = map snd (uniq_loop all_rows [])"

fun str_contains :: "ustring \<Rightarrow> ustring \<Rightarrow> bool" where
  "str_contains sub [] = (sub = [])"
| "str_contains sub (c # cs) = (take (length sub) (c # cs) = sub \<or> str_contains sub cs)"

definition is_bungalow_detail :: "pyrt \<Rightarrow> services \<Rightarrow> ustring \<Rightarrow> ustring \<Rightarrow> bool" where
  "is_bungalow_detail U E u site_host =
     (case fetch_svc E u of
        None \<Rightarrow> False
      | Some html \<Rightarrow>
          (let t = str_lower U html
           in if str_contains (ustr ''je bent bijna op de pagina'') t
                 \<or> str_contains (ustr ''captcha'') t \<or> str_contains (ustr ''cloudflare'') t
              then False
              else str_contains (ustr ''bungalow'') t))"

text \<open>What one entry of \<open>SITES\<close> yields: skipped for robots.txt, an exception in the fetch
  or the scrape, or the anchors of the page.\<close>

datatype site_outcome = RobotsDisallowed | SiteFailed | Page "Row option list"

fun collect_sites :: "site_outcome list \<Rightarrow> Row list \<Rightarrow> world \<Rightarrow> Row list \<times> world" where
  "collect_sites [] all_rows w = (all_rows, w)"
| "collect_sites (RobotsDisallowed # ss) all_rows w = collect_sites ss all_rows (print SkipRobots w)"
| "collect_sites (SiteFailed # ss) all_rows w = collect_sites ss all_rows (print SiteError w)"
| "collect_sites (Page anchors # ss) all_rows w =
     (let rows = scrape_search_page anchors
      in collect_sites ss (all_rows @ rows) (print (InfoDetailLinks (length rows)) w))"

definition new_rows :: "Row list \<Rightarrow> ustring set \<Rightarrow> Row list" where
  "new_rows enriched_rows prev_urls = filter (\<lambda>r. url r \<notin> prev_urls) enriched_rows"

text \<open>Lines 527 to 538 of \<open>run\<close>: the two CSV files and the map.\<close>

definition run_outputs :: "pyrt \<Rightarrow> Row list \<Rightarrow> ustring set \<Rightarrow> world \<Rightarrow> world" where
  "run_outputs U enriched_rows prev_urls w =
     (let w1 = write_csv U OUT_SNAPSHOT_CSV enriched_rows w;
          new = new_rows enriched_rows prev_urls;
          w2 = write_csv U OUT_NEW_CSV new w1;
          w3 = print (RunSummary (length enriched_rows) (length new)) w2
      in write_map enriched_rows w3)"

text \<open>Lines 482 to 525 of \<open>run\<close>, for a non-empty \<open>SITES\<close>: the URLs of the previous
  snapshot, the rows of all pages, their deduplication, the bungalow filter and the
  enrichment.\<close>

definition run_enrich ::
  "pyrt \<Rightarrow> services \<Rightarrow> site_outcome list \<Rightarrow> world \<Rightarrow> error + (Row list \<times> ustring set \<times> world)" where
  "run_enrich U E sites w =
     (let prev_urls = load_prev_urls (csv_files w OUT_SNAPSHOT_CSV)
      in case collect_sites sites [] w of
           (all_rows, w1) \<Rightarrow>
             (let detail_rows = dedup_rows all_rows;
                  filtered_rows =
                    filter (\<lambda>r. str_contains (ustr ''funda.nl'') (source r)
                                 \<or> is_bungalow_detail U E (url r) (source r)) detail_rows
              in case geocode_and_enrich_rows U E filtered_rows w1 of
                   Inl e \<Rightarrow> Inl e
                 | Inr (enriched_rows, w2) \<Rightarrow> Inr (enriched_rows, prev_urls, w2)))"

definition run :: "pyrt \<Rightarrow> services \<Rightarrow> site_outcome list \<Rightarrow> world \<Rightarrow> error + world" where
  "run U E sites w =
     (if sites = [] then Inr (print NoSites w)
      else case run_enrich U E sites w of
             Inl e \<Rightarrow> Inl e
           | Inr (enriched_rows, prev_urls, w2) \<Rightarrow> Inr (run_outputs U enriched_rows prev_urls w2))"

text \<open>What the geocoder answers to the \<open>j\<close>-th of the variants \<open>vs\<close> when they are sent
  in order, after the queries \<open>calls\<close>.\<close>

definition nth_answer :: "services \<Rightarrow> ustring list \<Rightarrow> ustring list \<Rightarrow> nat \<Rightarrow> (real \<times> real) option" where
  "nth_answer E calls vs j = geocode_svc E (calls @ take j vs) (vs ! j)"

section \<open>Example inputs\<close>

text \<open>
  A runtime with nothing beyond ASCII in its tables, to run the model on ASCII texts, on
  which no table is consulted beyond ASCII. The general theorems hold for every runtime.
\<close>

definition ascii_rt :: pyrt where
  "ascii_rt = \<lparr>u_decimal = (\<lambda>c. False), u_alnum = (\<lambda>c. False), u_lower = (\<lambda>s. s),
     u_upper = (\<lambda>s. s), float_repr = (\<lambda>x. [])\<rparr>"

definition blank_row :: Row where
  "blank_row = \<lparr>scraped_at = [], source = ustr ''www.funda.nl'', title = [], price_text = [],
     location_text = [], since_text = [], url = [], municipality = [], lat = None, lon = None,
     distance_km = None\<rparr>"

definition row_a :: Row where
  "row_a = blank_row\<lparr>title := ustr ''Rendierlaan 6 5704 DC Helmond'',
     url := ustr ''https://www.funda.nl/detail/koop/helmond/huis-rendierlaan-6/43000001/''\<rparr>"

definition row_b :: Row where
  "row_b = blank_row\<lparr>title := ustr ''Bekijk woning'',
     url := ustr ''https://www.funda.nl/detail/koop/helmond/huis-rendierlaan-6/43000001/''\<rparr>"

definition row_c :: Row where
  "row_c = blank_row\<lparr>title := ustr ''Dorpsstraat 1 6301 AB Valkenburg'',
     url := ustr ''https://www.funda.nl/detail/koop/valkenburg/huis-dorpsstraat-1/43000002/''\<rparr>"

definition world0 :: world where
  "world0 = \<lparr>geo_file = Missing, rev_file = Missing, csv_files = (\<lambda>p. None), map_html = None,
     geo_calls = [], rev_calls = [], stdout = []\<rparr>"

text \<open>A world left by an earlier run: a snapshot with one listing and a map.\<close>

definition old_world :: world where
  "old_world = world0\<lparr>
     csv_files := (\<lambda>p. Some [COLUMNS, csv_record ascii_rt row_a]),
     map_html := Some \<lparr>center = (51, 6), markers = []\<rparr>\<rparr>"

text \<open>Services without any answer; a geocoder that knows one address; a world whose
  cache has the URL of \<open>row_a\<close>, and one whose cache has an address of \<open>row_a\<close>.\<close>

definition no_services :: services where
  "no_services = \<lparr>geocode_svc = (\<lambda>h a. None), reverse_svc = (\<lambda>h ll. None),
     geodesic_km = (\<lambda>c p. None), fetch_svc = (\<lambda>u. None)\<rparr>"

definition helmond_services :: services where
  "helmond_services = no_services\<lparr>
     geocode_svc := (\<lambda>h a. if a = ustr ''5704 DC helmond, Nederland'' then Some (51, 6) else None),
     geodesic_km := (\<lambda>c p. Some 12)\<rparr>"

definition url_cache :: geo_cache where
  "url_cache = [url row_a \<mapsto> GEntry (Some 51) (Some 6)]"

definition addr_cache :: geo_cache where
  "addr_cache = [ustr ''5704 DC helmond, Nederland'' \<mapsto> GEntry (Some 51) (Some 6)]"

definition cached_world :: world where
  "cached_world = world0\<lparr>geo_file := Dict url_cache\<rparr>"

section \<open>Evaluating the patterns\<close>

lemmas cls_defs = is_digit_def is_word_def is_space_def is_upper_AZ_def is_lower_az_def
  is_AZ_ignorecase_def is_place_char_def

lemmas re_defs = re_search_def run_len_def prev_after_def at_boundary_def Lit_def lits_def

section \<open>The address variants\<close>

text \<open>
  C3. For a record whose title is "Rendierlaan 6 5704 DC Helmond" and whose location text
  is "5704 DC Helmond", a euro sign and " 450.000 k.k.", whatever its other fields, the
  first variant that \<open>guess_address_variants\<close> returns is
  "Rendierlaan 6, 5704 DC Helmond, Nederland"; the four variants after it are the postcode
  with the place, the title, the place and the fallback region.
\<close>

theorem guess_address_variants_rendierlaan:
  "guess_address_variants U
     (r\<lparr>title := ustr ''Rendierlaan 6 5704 DC Helmond'',
        location_text := ustr ''5704 DC Helmond '' @ [8364] @ ustr '' 450.000 k.k.''\<rparr>)
   = ustr ''Rendierlaan 6, 5704 DC Helmond, Nederland'' #
     map ustr [''5704 DC Helmond, Nederland'', ''Rendierlaan 6 5704 DC Helmond, Nederland'',
               ''Helmond, Nederland'', ''Limburg, Nederland'']"
  by (simp add: guess_address_variants_def str_or_def extract_place_from_location_text_def
      PLACE_RE_def PLACE_NOISE_def extract_street_from_title_def extract_postcode_def
      POSTCODE_RE_def ustr_def cls_defs re_defs norm_def str_strip_def Let_def)

text \<open>
  C7. The claim is that the postcode extraction used by the variant generator returns
  the two letters in upper case. On the text "5704 dc Helmond" the definition in effect
  returns "5704 dc"; the definition it shadows returns "5704 DC".
\<close>

theorem extract_postcode_keeps_lower_case:
  "extract_postcode U (ustr ''5704 dc Helmond'') = ustr ''5704 dc'' \<and>
   extract_postcode_first U (ustr ''5704 dc Helmond'') = ustr ''5704 DC''"
  by (simp add: extract_postcode_def extract_postcode_first_def POSTCODE_RE_def ustr_def
      cls_defs re_defs str_upper_def)

text \<open>
  C8. The claim is that street extraction returns the text of the title before the
  postal code. On the title "Rendierlaan 6 5704DC Helmond", whose postal code the
  pattern finds, the title is split at "5704 DC", which does not occur in it, and the
  whole title is returned instead of "Rendierlaan 6".
\<close>

theorem extract_street_returns_whole_title:
  "extract_postcode U (ustr ''Rendierlaan 6 5704DC Helmond'') = ustr ''5704 DC'' \<and>
   extract_street_from_title U (ustr ''Rendierlaan 6 5704DC Helmond'')
     = ustr ''Rendierlaan 6 5704DC Helmond''"
  by (simp add: extract_street_from_title_def extract_postcode_def POSTCODE_RE_def ustr_def
      cls_defs re_defs norm_def str_strip_def)

section \<open>Deduplication by URL\<close>

lemma filter_no_key:
  "\<forall>(k, r) \<in> set d. k = url r \<Longrightarrow> u \<notin> fst ` set d \<Longrightarrow>
     filter (\<lambda>r. url r = u) (map snd d) = []"
  by (induction d) (auto simp: image_iff)

lemma setdefault_keys:
  "\<forall>(k, r) \<in> set d. k = url r \<Longrightarrow> \<forall>(k, r') \<in> set (setdefault (url r) r d). k = url r'"
  by (auto simp: setdefault_def)

lemma uniq_loop_first:
  "\<forall>(k, r) \<in> set d. k = url r \<Longrightarrow>
   filter (\<lambda>r. url r = u) (map snd (uniq_loop rs d)) =
     (if u \<in> fst ` set d then filter (\<lambda>r. url r = u) (map snd d)
      else case find (\<lambda>r. url r = u) rs of None \<Rightarrow> [] | Some r \<Rightarrow> [r])"
proof (induction rs arbitrary: d)
  case Nil
  then show ?case by (simp add: filter_no_key)
next
  case (Cons r rs)
  have inv: "\<forall>(k, r') \<in> set (setdefault (url r) r d). k = url r'"
    using Cons.prems by (rule setdefault_keys)
  show ?case
    using Cons.IH [OF inv] Cons.prems
    by (auto simp: setdefault_def filter_no_key image_iff)
qed

lemma scrape_loop_first:
  "\<forall>(k, r) \<in> set d. k = url r \<Longrightarrow>
   filter (\<lambda>r. url r = u) (map snd (scrape_loop as d)) =
     (if u \<in> fst ` set d then filter (\<lambda>r. url r = u) (map snd d)
      else case find (\<lambda>r. url r = u) [r. Some r \<leftarrow> as] of None \<Rightarrow> [] | Some r \<Rightarrow> [r])"
proof (induction as arbitrary: d)
  case Nil
  then show ?case by (simp add: filter_no_key)
next
  case (Cons a as)
  show ?case
  proof (cases a)
    case None
    then show ?thesis using Cons by simp
  next
    case (Some r)
    have inv: "\<forall>(k, r') \<in> set (setdefault (url r) r d). k = url r'"
      using Cons.prems by (rule setdefault_keys)
    show ?thesis
      using Cons.IH [OF inv] Cons.prems Some
      by (auto simp: setdefault_def filter_no_key image_iff)
  qed
qed

text \<open>
  C6, as the code has it. Of the rows built from one page, and of the rows of all pages
  of a run, exactly one row is kept for each URL that occurs, and it is the first row
  with that URL, at both stages: \<open>setdefault\<close> never replaces a stored row.
\<close>

theorem dedup_keeps_first_seen:
  "filter (\<lambda>r. url r = u) (scrape_search_page anchors) =
     (case find (\<lambda>r. url r = u) [r. Some r \<leftarrow> anchors] of None \<Rightarrow> [] | Some r \<Rightarrow> [r]) \<and>
   filter (\<lambda>r. url r = u) (dedup_rows all_rows) =
     (case find (\<lambda>r. url r = u) all_rows of None \<Rightarrow> [] | Some r \<Rightarrow> [r])"
  by (simp add: scrape_search_page_def dedup_rows_def uniq_loop_first scrape_loop_first)

text \<open>
  C6, as the claim has it, fails at the extraction: of two anchors with the same URL the
  row of the first is returned, not the row seen last.
\<close>

theorem scrape_last_seen_counterexample:
  "url row_a = url row_b \<and> row_a \<noteq> row_b \<and>
   scrape_search_page [Some row_a, Some row_b] = [row_a]"
  by (simp add: scrape_search_page_def setdefault_def row_a_def row_b_def blank_row_def ustr_def)

section \<open>The snapshot, the new listings and the map\<close>

text \<open>
  C5. For every enriched record and every set of URLs of the previous snapshot: when the
  URL of the record is in the set, no record with that URL is among the new rows; when
  it is not, the record is among the new rows. The new rows are what \<open>run\<close> writes,
  after the header, to the file of new listings, and a missing snapshot file gives the
  empty set of URLs.
\<close>

theorem new_rows_diff:
  assumes "r \<in> set enriched_rows"
  shows "(url r \<in> prev_urls \<longrightarrow> url r \<notin> url ` set (new_rows enriched_rows prev_urls)) \<and>
         (url r \<notin> prev_urls \<longrightarrow> r \<in> set (new_rows enriched_rows prev_urls)) \<and>
         csv_files (run_outputs U enriched_rows prev_urls w) OUT_NEW_CSV =
           Some (COLUMNS # map (csv_record U) (new_rows enriched_rows prev_urls)) \<and>
         load_prev_urls None = {}"
  using assms
  by (auto simp: new_rows_def run_outputs_def write_csv_def write_map_def print_def
      load_prev_urls_def Let_def)

theorem new_rows_diff_witness:
  "row_c \<in> set [row_a, row_c] \<and> url row_a \<in> {url row_a} \<and> url row_c \<notin> {url row_a} \<and>
   url row_a \<notin> url ` set (new_rows [row_a, row_c] {url row_a}) \<and>
   row_c \<in> set (new_rows [row_a, row_c] {url row_a})"
  using new_rows_diff [of row_c "[row_a, row_c]" "{url row_a}"]
    new_rows_diff [of row_a "[row_a, row_c]" "{url row_a}"]
  by (simp add: row_a_def row_c_def blank_row_def ustr_def)

text \<open>
  C9. When no record of the input has both \<open>lat\<close> and \<open>lon\<close> (the empty list is such an
  input), \<open>write_map\<close> returns with the warning printed and nothing else changed: the
  map file is as it was. \<open>write_map\<close> has no raising path in the model.
\<close>

theorem write_map_without_points:
  assumes "\<forall>r \<in> set rows. lat r = None \<or> lon r = None"
  shows "write_map rows w = w\<lparr>stdout := stdout w @ [WarnNoPoints]\<rparr>"
proof -
  have "filter (\<lambda>r. lat r \<noteq> None \<and> lon r \<noteq> None) rows = []"
    using assms by (auto simp: filter_empty_conv)
  then show ?thesis by (simp add: write_map_def print_def)
qed

theorem write_map_without_points_witness:
  "write_map [] old_world = old_world\<lparr>stdout := stdout old_world @ [WarnNoPoints]\<rparr> \<and>
   lat row_a = None \<and>
   write_map [row_a] old_world = old_world\<lparr>stdout := stdout old_world @ [WarnNoPoints]\<rparr> \<and>
   map_html (write_map [row_a] old_world) = Some \<lparr>center = (51, 6), markers = []\<rparr>"
  using write_map_without_points [of "[]" old_world]
    write_map_without_points [of "[row_a]" old_world]
  by (simp add: row_a_def blank_row_def old_world_def)

section \<open>The radius filter\<close>

lemma round_half_even_le: "x \<le> of_int n \<Longrightarrow> round_half_even x \<le> n"
proof -
  assume h: "x \<le> of_int n"
  have f: "\<lfloor>x\<rfloor> \<le> n" using h by (simp add: floor_le_iff)
  have g: "0 < x - of_int \<lfloor>x\<rfloor> \<Longrightarrow> \<lfloor>x\<rfloor> + 1 \<le> n"
  proof -
    assume "0 < x - of_int \<lfloor>x\<rfloor>"
    then have "of_int \<lfloor>x\<rfloor> < (of_int n :: real)" using h by linarith
    then show ?thesis by simp
  qed
  show ?thesis
    unfolding round_half_even_def Let_def using f g by (auto split: if_splits)
qed

lemma py_round1_le_radius: "d \<le> RADIUS_KM \<Longrightarrow> py_round1 d \<le> RADIUS_KM"
proof -
  assume "d \<le> RADIUS_KM"
  then have "d * 10 \<le> of_int 1000" by (simp add: RADIUS_KM_def)
  then have "round_half_even (d * 10) \<le> 1000" by (rule round_half_even_le)
  then have "(of_int (round_half_even (d * 10)) :: real) \<le> 1000" by linarith
  then show ?thesis by (simp add: py_round1_def RADIUS_KM_def)
qed

lemma enrich_row_in_radius:
  "enrich_row U E c r gc rc w = Inr (Some r', gc', rc', w') \<Longrightarrow> in_radius E c r'"
  unfolding enrich_row_def in_radius_def
  by (auto split: sum.splits option.splits prod.splits if_splits simp: py_round1_le_radius)

lemma enrich_rows_in_radius:
  "enrich_rows U E c rs acc gc rc w = Inr (out, w') \<Longrightarrow> \<forall>r \<in> set acc. in_radius E c r \<Longrightarrow>
     \<forall>r \<in> set out. in_radius E c r"
proof (induction rs arbitrary: acc gc rc w)
  case Nil
  then show ?case by simp
next
  case (Cons r rs)
  show ?case
  proof (cases "enrich_row U E c r gc rc w")
    case (Inl e)
    then show ?thesis using Cons.prems by simp
  next
    case (Inr t)
    obtain res gc1 rc1 w1 where t: "t = (res, gc1, rc1, w1)" by (cases t) auto
    show ?thesis
    proof (cases res)
      case None
      then show ?thesis using Cons Inr t by simp
    next
      case (Some r')
      have "in_radius E c r'" using Inr t Some by (auto intro: enrich_row_in_radius)
      then have "\<forall>x \<in> set (acc @ [r']). in_radius E c x" using Cons.prems(2) by simp
      then show ?thesis using Cons.IH [of "acc @ [r']" gc1 rc1 w1] Cons.prems(1) Inr t Some by simp
    qed
  qed
qed

text \<open>
  C1. Every record of the list that \<open>geocode_and_enrich_rows\<close> returns has \<open>lat\<close> and
  \<open>lon\<close>, the geodesic distance of that coordinate to the centre of the run is at most
  \<open>RADIUS_KM\<close> (a row farther away is skipped before it is enriched), and its
  \<open>distance_km\<close> is that distance rounded to one decimal and is at most \<open>RADIUS_KM\<close>.
\<close>

theorem enriched_rows_in_radius:
  assumes "geocode_and_enrich_rows U E rows w = Inr (enriched, w')" and "r \<in> set enriched"
  shows "\<exists>x y d. lat r = Some x \<and> lon r = Some y \<and>
           geodesic_km E (fst (get_center_latlon E w)) (Some x, Some y) = Some d \<and>
           d \<le> RADIUS_KM \<and> distance_km r = Some (py_round1 d) \<and> py_round1 d \<le> RADIUS_KM"
proof -
  obtain gc rc w2 where
    "enrich_rows U E (fst (get_center_latlon E w)) rows [] gc rc (snd (get_center_latlon E w)) = Inr (enriched, w2)"
    using assms(1) unfolding geocode_and_enrich_rows_def
    by (auto split: sum.splits prod.splits)
  then have "\<forall>r \<in> set enriched. in_radius E (fst (get_center_latlon E w)) r"
    by (rule enrich_rows_in_radius) simp
  then show ?thesis using assms(2) unfolding in_radius_def by blast
qed

theorem enriched_rows_in_radius_witness:
  "(\<exists>w'. geocode_and_enrich_rows ascii_rt helmond_services [row_a] cached_world
       = Inr ([row_a\<lparr>lat := Some 51, lon := Some 6, distance_km := Some 12\<rparr>], w')) \<and>
   geodesic_km helmond_services (fst (get_center_latlon helmond_services cached_world)) (Some 51, Some 6) = Some 12 \<and>
   (12::real) \<le> RADIUS_KM \<and> py_round1 12 = 12"
proof -
  have e: "\<exists>w'. geocode_and_enrich_rows ascii_rt helmond_services [row_a] cached_world
       = Inr ([row_a\<lparr>lat := Some 51, lon := Some 6, distance_km := Some 12\<rparr>], w')"
    by (simp add: geocode_and_enrich_rows_def cached_world_def world0_def load_json_cache_def
        get_center_latlon_def geocode_def helmond_services_def no_services_def enrich_row_def
        resolve_latlon_def url_cache_def entry_latlon_def RADIUS_KM_def municipality_of_def
        reverse_def py_round1_def round_half_even_def print_def row_a_def blank_row_def
        CENTER_NAME_def ustr_def)
  then obtain w' where h: "geocode_and_enrich_rows ascii_rt helmond_services [row_a] cached_world
       = Inr ([row_a\<lparr>lat := Some 51, lon := Some 6, distance_km := Some 12\<rparr>], w')" ..
  have "\<exists>x y d. lat (row_a\<lparr>lat := Some 51, lon := Some 6, distance_km := Some 12\<rparr>) = Some x \<and>
      lon (row_a\<lparr>lat := Some 51, lon := Some 6, distance_km := Some 12\<rparr>) = Some y \<and>
      geodesic_km helmond_services (fst (get_center_latlon helmond_services cached_world)) (Some x, Some y) = Some d \<and>
      d \<le> RADIUS_KM \<and> distance_km (row_a\<lparr>lat := Some 51, lon := Some 6, distance_km := Some 12\<rparr>) = Some (py_round1 d) \<and>
      py_round1 d \<le> RADIUS_KM"
    by (rule enriched_rows_in_radius [OF h]) simp
  then show ?thesis using e
    by (auto simp: helmond_services_def no_services_def)
qed

section \<open>A run without enriched records\<close>

lemma try_geocode_files:
  "try_geocode E vs w = (res, w') \<Longrightarrow> map_html w' = map_html w \<and> csv_files w' = csv_files w"
proof (induction vs arbitrary: w)
  case Nil
  then show ?case by simp
next
  case (Cons a vs)
  show ?case
  proof (cases "geocode_svc E (geo_calls w) a")
    case None
    then have "try_geocode E vs (w\<lparr>geo_calls := geo_calls w @ [a]\<rparr>) = (res, w')"
      using Cons.prems by (simp add: geocode_def)
    from Cons.IH [OF this] show ?thesis by simp
  next
    case (Some ll)
    then show ?thesis using Cons.prems by (cases ll) (auto simp: geocode_def)
  qed
qed

lemma resolve_latlon_files:
  "resolve_latlon U E r gc w = Inr (res, gc', w') \<Longrightarrow>
     map_html w' = map_html w \<and> csv_files w' = csv_files w"
  unfolding resolve_latlon_def
  by (auto split: sum.splits option.splits prod.splits simp: print_def Let_def
      dest!: try_geocode_files)

lemma municipality_of_files:
  "municipality_of E ll rc w = Inr (m, rc', w') \<Longrightarrow>
     map_html w' = map_html w \<and> csv_files w' = csv_files w"
  unfolding municipality_of_def
  by (auto split: option.splits rev_entry.splits prod.splits simp: Let_def reverse_def)

lemma enrich_row_files:
  "enrich_row U E c r gc rc w = Inr (res, gc', rc', w') \<Longrightarrow>
     map_html w' = map_html w \<and> csv_files w' = csv_files w"
  unfolding enrich_row_def
  by (auto split: sum.splits option.splits prod.splits if_splits
      dest!: resolve_latlon_files municipality_of_files)

lemma enrich_rows_files:
  "enrich_rows U E c rs acc gc rc w = Inr (out, w') \<Longrightarrow>
     map_html w' = map_html w \<and> csv_files w' = csv_files w"
proof (induction rs arbitrary: acc gc rc w)
  case Nil
  then show ?case by simp
next
  case (Cons r rs)
  show ?case
  proof (cases "enrich_row U E c r gc rc w")
    case (Inl e)
    then show ?thesis using Cons.prems by simp
  next
    case (Inr t)
    obtain res gc1 rc1 w1 where t: "t = (res, gc1, rc1, w1)" by (cases t) auto
    have s: "map_html w1 = map_html w \<and> csv_files w1 = csv_files w"
      using Inr t by (auto dest: enrich_row_files)
    show ?thesis
    proof (cases res)
      case None
      then have "enrich_rows U E c rs acc gc1 rc1 w1 = Inr (out, w')"
        using Cons.prems Inr t by simp
      from Cons.IH [OF this] s show ?thesis by simp
    next
      case (Some r')
      then have "enrich_rows U E c rs (acc @ [r']) gc1 rc1 w1 = Inr (out, w')"
        using Cons.prems Inr t by simp
      from Cons.IH [OF this] s show ?thesis by simp
    qed
  qed
qed

lemma geocode_and_enrich_rows_files:
  "geocode_and_enrich_rows U E rows w = Inr (out, w') \<Longrightarrow>
     map_html w' = map_html w \<and> csv_files w' = csv_files w"
  unfolding geocode_and_enrich_rows_def get_center_latlon_def geocode_def
  by (auto split: sum.splits option.splits prod.splits simp: print_def
      dest!: enrich_rows_files)

lemma collect_sites_files:
  "collect_sites sites acc w = (rows, w') \<Longrightarrow>
     map_html w' = map_html w \<and> csv_files w' = csv_files w"
proof (induction sites acc w rule: collect_sites.induct)
  case (1 all_rows w)
  then show ?case by simp
next
  case (2 ss all_rows w)
  then show ?case by (simp add: print_def)
next
  case (3 ss all_rows w)
  then show ?case by (simp add: print_def)
next
  case (4 anchors ss all_rows w)
  then show ?case by (simp add: print_def Let_def)
qed

lemma run_enrich_files:
  "run_enrich U E sites w = Inr (out, prev, w') \<Longrightarrow>
     map_html w' = map_html w \<and> csv_files w' = csv_files w"
  unfolding run_enrich_def Let_def
  by (auto split: sum.splits prod.splits
      dest!: collect_sites_files geocode_and_enrich_rows_files)

text \<open>
  C10. \<open>write_csv\<close> on an empty list of records writes the file with the header of the
  eleven column names and nothing else. So a run over a non-empty \<open>SITES\<close> whose
  enrichment yields no record ends with the snapshot file (and the file of new listings)
  holding the header only, whatever the snapshot held before, and with the map file as it
  was before the run.
\<close>

theorem empty_run_header_only:
  assumes "sites \<noteq> []" and "run_enrich U E sites w = Inr ([], prev_urls, w2)"
  shows "csv_files (write_csv U path [] w0) path = Some [COLUMNS] \<and> length COLUMNS = 11 \<and>
         (\<exists>w'. run U E sites w = Inr w' \<and>
               csv_files w' OUT_SNAPSHOT_CSV = Some [COLUMNS] \<and>
               csv_files w' OUT_NEW_CSV = Some [COLUMNS] \<and>
               map_html w' = map_html w)"
proof -
  have "map_html w2 = map_html w" using assms(2) by (auto dest: run_enrich_files)
  then show ?thesis using assms
    by (simp add: run_def run_outputs_def write_csv_def new_rows_def write_map_def
        print_def COLUMNS_def Let_def)
qed

theorem empty_run_header_only_witness:
  "[SiteFailed] \<noteq> [] \<and>
   (\<exists>prev w2. run_enrich ascii_rt no_services [SiteFailed] old_world = Inr ([], prev, w2)) \<and>
   csv_files old_world OUT_SNAPSHOT_CSV = Some [COLUMNS, csv_record ascii_rt row_a] \<and>
   (\<exists>w'. run ascii_rt no_services [SiteFailed] old_world = Inr w' \<and>
         csv_files w' OUT_SNAPSHOT_CSV = Some [COLUMNS] \<and>
         csv_files w' OUT_NEW_CSV = Some [COLUMNS] \<and>
         map_html w' = Some \<lparr>center = (51, 6), markers = []\<rparr>)"
proof -
  have e: "\<exists>prev w2. run_enrich ascii_rt no_services [SiteFailed] old_world = Inr ([], prev, w2)"
    by (simp add: run_enrich_def dedup_rows_def geocode_and_enrich_rows_def old_world_def
        world0_def load_json_cache_def get_center_latlon_def geocode_def no_services_def
        print_def Let_def)
  then obtain prev w2 where
    h: "run_enrich ascii_rt no_services [SiteFailed] old_world = Inr ([], prev, w2)" by blast
  have n: "[SiteFailed] \<noteq> []" by simp
  have c: "\<exists>w'. run ascii_rt no_services [SiteFailed] old_world = Inr w' \<and>
         csv_files w' OUT_SNAPSHOT_CSV = Some [COLUMNS] \<and>
         csv_files w' OUT_NEW_CSV = Some [COLUMNS] \<and>
         map_html w' = map_html old_world"
    using empty_run_header_only [OF n h] by blast
  have m: "map_html old_world = Some \<lparr>center = (51, 6), markers = []\<rparr>"
    by (simp add: old_world_def world0_def)
  have f: "csv_files old_world OUT_SNAPSHOT_CSV = Some [COLUMNS, csv_record ascii_rt row_a]"
    by (simp add: old_world_def world0_def)
  show ?thesis
    using c e f n unfolding m by blast
qed

section \<open>The order of the coordinate lookup\<close>

lemma cache_lookup_none: "\<forall>a \<in> set vs. gc a = None \<Longrightarrow> cache_lookup gc vs = Inr None"
  by (induction vs) auto

lemma cache_lookup_first:
  "i < length vs \<Longrightarrow> gc (vs ! i) = Some (GEntry la lo) \<Longrightarrow> \<forall>j<i. gc (vs ! j) = None \<Longrightarrow>
     cache_lookup gc vs = Inr (Some (la, lo))"
proof (induction vs arbitrary: i)
  case Nil
  then show ?case by simp
next
  case (Cons a vs)
  show ?case
  proof (cases i)
    case 0
    then show ?thesis using Cons.prems by (simp add: entry_latlon_def)
  next
    case (Suc k)
    have a: "gc a = None" using Cons.prems(3) Suc by auto
    have "\<forall>j<k. gc (vs ! j) = None" using Cons.prems(3) Suc by auto
    then have "cache_lookup gc vs = Inr (Some (la, lo))"
      using Cons.IH [of k] Cons.prems(1,2) Suc by simp
    then show ?thesis using a by simp
  qed
qed

lemma try_geocode_first:
  "i < length vs \<Longrightarrow> nth_answer E (geo_calls w) vs i = Some (x, y) \<Longrightarrow>
   \<forall>j<i. nth_answer E (geo_calls w) vs j = None \<Longrightarrow>
     try_geocode E vs w = (Some (x, y, vs ! i), w\<lparr>geo_calls := geo_calls w @ take (Suc i) vs\<rparr>)"
proof (induction vs arbitrary: i w)
  case Nil
  then show ?case by simp
next
  case (Cons a vs)
  show ?case
  proof (cases i)
    case 0
    then show ?thesis using Cons.prems by (simp add: nth_answer_def geocode_def)
  next
    case (Suc k)
    let ?w1 = "w\<lparr>geo_calls := geo_calls w @ [a]\<rparr>"
    have a: "geocode_svc E (geo_calls w) a = None"
      using Cons.prems(3) Suc by (auto simp: nth_answer_def)
    have s: "nth_answer E (geo_calls ?w1) vs k = Some (x, y)"
      using Cons.prems(2) Suc by (simp add: nth_answer_def)
    have n: "\<forall>j<k. nth_answer E (geo_calls ?w1) vs j = None"
    proof (intro allI impI)
      fix j assume "j < k"
      then have "nth_answer E (geo_calls w) (a # vs) (Suc j) = None"
        using Cons.prems(3) Suc by simp
      then show "nth_answer E (geo_calls ?w1) vs j = None" by (simp add: nth_answer_def)
    qed
    have "try_geocode E vs ?w1 = (Some (x, y, vs ! k), ?w1\<lparr>geo_calls := geo_calls ?w1 @ take (Suc k) vs\<rparr>)"
      using Cons.IH [of k ?w1] Cons.prems(1) Suc s n by simp
    then show ?thesis using a Suc by (simp add: geocode_def)
  qed
qed

lemma try_geocode_none:
  "\<forall>j<length vs. nth_answer E (geo_calls w) vs j = None \<Longrightarrow>
     try_geocode E vs w = (None, w\<lparr>geo_calls := geo_calls w @ vs\<rparr>)"
proof (induction vs arbitrary: w)
  case Nil
  then show ?case by simp
next
  case (Cons a vs)
  let ?w1 = "w\<lparr>geo_calls := geo_calls w @ [a]\<rparr>"
  have a: "geocode_svc E (geo_calls w) a = None"
    using Cons.prems by (auto simp: nth_answer_def)
  have n: "\<forall>j<length vs. nth_answer E (geo_calls ?w1) vs j = None"
  proof (intro allI impI)
    fix j assume "j < length vs"
    then have "nth_answer E (geo_calls w) (a # vs) (Suc j) = None"
      using Cons.prems by simp
    then show "nth_answer E (geo_calls ?w1) vs j = None" by (simp add: nth_answer_def)
  qed
  show ?case using Cons.IH [OF n] a by (simp add: geocode_def)
qed

text \<open>
  C2. The coordinates of a record are looked up in this order, \<open>vs\<close> being its address
  variants in the order generated. (1) A cache entry under the URL of the record is
  taken, and nothing is sent. (2) Without one, the entry of the first variant that is a
  key of the cache is taken, and nothing is sent. (3) With no variant in the cache, the
  variants are sent to the geocoder in order up to the first that has an answer, and
  that answer is the result. (4) When no variant has an answer, all variants have been
  sent in order, the record has no coordinates and the loop goes on without adding it
  to the enriched rows, from which all outputs are written.
\<close>

theorem resolution_order:
  "(let vs = guess_address_variants U r; ans = nth_answer E (geo_calls w) vs in
    (gc (url r) = Some (GEntry la lo) \<longrightarrow>
       resolve_latlon U E r gc w = Inr (Some (la, lo), gc, w)) \<and>
    (gc (url r) = None \<and> i < length vs \<and> gc (vs ! i) = Some (GEntry la lo) \<and>
       (\<forall>j<i. gc (vs ! j) = None) \<longrightarrow>
       resolve_latlon U E r gc w = Inr (Some (la, lo), gc, w)) \<and>
    (gc (url r) = None \<and> (\<forall>a \<in> set vs. gc a = None) \<and> i < length vs \<and>
       ans i = Some (x, y) \<and> (\<forall>j<i. ans j = None) \<longrightarrow>
       (\<exists>gc' w'. resolve_latlon U E r gc w = Inr (Some (Some x, Some y), gc', w') \<and>
                 geo_calls w' = geo_calls w @ take (Suc i) vs)) \<and>
    (gc (url r) = None \<and> (\<forall>a \<in> set vs. gc a = None) \<and> (\<forall>j<length vs. ans j = None) \<longrightarrow>
       (\<exists>w'. resolve_latlon U E r gc w = Inr (None, gc, w') \<and>
             geo_calls w' = geo_calls w @ vs \<and>
             enrich_rows U E c (r # rs) enriched gc rc w = enrich_rows U E c rs enriched gc rc w')))"
proof -
  define vs where "vs = guess_address_variants U r"
  have 1: "gc (url r) = Some (GEntry la lo) \<Longrightarrow>
       resolve_latlon U E r gc w = Inr (Some (la, lo), gc, w)"
    by (simp add: resolve_latlon_def entry_latlon_def)
  have 2: "gc (url r) = None \<Longrightarrow> i < length vs \<Longrightarrow> gc (vs ! i) = Some (GEntry la lo) \<Longrightarrow>
       \<forall>j<i. gc (vs ! j) = None \<Longrightarrow> resolve_latlon U E r gc w = Inr (Some (la, lo), gc, w)"
    using cache_lookup_first [of i vs gc la lo]
    by (simp add: resolve_latlon_def vs_def)
  have 3: "gc (url r) = None \<Longrightarrow> \<forall>a \<in> set vs. gc a = None \<Longrightarrow> i < length vs \<Longrightarrow>
       nth_answer E (geo_calls w) vs i = Some (x, y) \<Longrightarrow>
       \<forall>j<i. nth_answer E (geo_calls w) vs j = None \<Longrightarrow>
       \<exists>gc' w'. resolve_latlon U E r gc w = Inr (Some (Some x, Some y), gc', w') \<and>
                 geo_calls w' = geo_calls w @ take (Suc i) vs"
    using cache_lookup_none [of vs gc] try_geocode_first [of i vs E w x y]
    by (simp add: resolve_latlon_def vs_def Let_def)
  have 4: "gc (url r) = None \<Longrightarrow> \<forall>a \<in> set vs. gc a = None \<Longrightarrow>
       \<forall>j<length vs. nth_answer E (geo_calls w) vs j = None \<Longrightarrow>
       \<exists>w'. resolve_latlon U E r gc w = Inr (None, gc, w') \<and>
             geo_calls w' = geo_calls w @ vs \<and>
             enrich_rows U E c (r # rs) enriched gc rc w = enrich_rows U E c rs enriched gc rc w'"
    using cache_lookup_none [of vs gc] try_geocode_none [of vs E w]
    by (simp add: resolve_latlon_def enrich_row_def vs_def print_def)
  show ?thesis
    unfolding Let_def vs_def [symmetric] using 1 2 3 4 by blast
qed

lemma try_geocode_some:
  "try_geocode E vs w = (Some (la, lo, a), w1) \<Longrightarrow>
     a \<in> set vs \<and> geo_calls w1 \<noteq> [] \<and> last (geo_calls w1) = a \<and>
     geocode_svc E (butlast (geo_calls w1)) a = Some (la, lo)"
proof (induction vs arbitrary: w)
  case Nil
  then show ?case by simp
next
  case (Cons v vs)
  show ?case
  proof (cases "geocode_svc E (geo_calls w) v")
    case None
    then have "try_geocode E vs (w\<lparr>geo_calls := geo_calls w @ [v]\<rparr>) = (Some (la, lo, a), w1)"
      using Cons.prems by (simp add: geocode_def)
    from Cons.IH [OF this] show ?thesis by simp
  next
    case (Some ll)
    then show ?thesis using Cons.prems by (cases ll) (auto simp: geocode_def)
  qed
qed

text \<open>
  C4. After a fresh geocode success (nothing in the cache under the URL or a variant, and
  \<open>used_addr\<close> the variant whose query was answered), the cache holds the coordinate
  under the URL of the record and under \<open>used_addr\<close>, and the cache file holds that
  cache, so a later load returns it. Resolving a record with the same URL against this
  cache returns the coordinate and leaves the world as it is: no query is sent.
\<close>

theorem fresh_geocode_cached:
  assumes "gc (url r) = None"
    and "cache_lookup gc (guess_address_variants U r) = Inr None"
    and "try_geocode E (guess_address_variants U r) w = (Some (la, lo, used_addr), w1)"
  shows "\<exists>gc' w'. resolve_latlon U E r gc w = Inr (Some (Some la, Some lo), gc', w') \<and>
           used_addr \<in> set (guess_address_variants U r) \<and>
           last (geo_calls w') = used_addr \<and>
           geocode_svc E (butlast (geo_calls w')) used_addr = Some (la, lo) \<and>
           gc' (url r) = Some (GEntry (Some la) (Some lo)) \<and>
           gc' used_addr = Some (GEntry (Some la) (Some lo)) \<and>
           geo_file w' = Dict gc' \<and>
           load_json_cache (geo_file w') = Inr gc' \<and>
           (\<forall>r2 w2. url r2 = url r \<longrightarrow>
              resolve_latlon U E r2 gc' w2 = Inr (Some (Some la, Some lo), gc', w2))"
proof -
  let ?e = "GEntry (Some la) (Some lo)"
  let ?gc = "gc(url r \<mapsto> ?e, used_addr \<mapsto> ?e)"
  let ?w = "w1\<lparr>geo_file := Dict ?gc\<rparr>"
  have r: "resolve_latlon U E r gc w = Inr (Some (Some la, Some lo), ?gc, ?w)"
    using assms by (simp add: resolve_latlon_def Let_def)
  have u: "?gc (url r) = Some ?e" by simp
  have again: "\<forall>r2 w2. url r2 = url r \<longrightarrow>
      resolve_latlon U E r2 ?gc w2 = Inr (Some (Some la, Some lo), ?gc, w2)"
    using u by (simp add: resolve_latlon_def entry_latlon_def)
  have t: "used_addr \<in> set (guess_address_variants U r) \<and> last (geo_calls ?w) = used_addr \<and>
     geocode_svc E (butlast (geo_calls ?w)) used_addr = Some (la, lo)"
    using try_geocode_some [OF assms(3)] by simp
  have f: "geo_file ?w = Dict ?gc \<and> load_json_cache (geo_file ?w) = Inr ?gc"
    by (simp add: load_json_cache_def)
  have k: "?gc used_addr = Some ?e" by simp
  show ?thesis
    using r t u k f again by blast
qed


lemma variants_row_a:
  "guess_address_variants ascii_rt row_a =
     map ustr [''Rendierlaan 6, 5704 DC helmond, Nederland'', ''5704 DC helmond, Nederland'',
       ''Rendierlaan 6 5704 DC Helmond, Nederland'', ''helmond, Nederland'', ''Limburg, Nederland'']"
  by (simp add: guess_address_variants_def str_or_def extract_place_from_location_text_def
      PLACE_RE_def PLACE_NOISE_def extract_street_from_title_def extract_postcode_def
      POSTCODE_RE_def ustr_def cls_defs re_defs norm_def str_strip_def Let_def row_a_def
      blank_row_def extract_place_from_funda_url_def FUNDA_PLACE_RE_def str_lower_def
      ascii_rt_def)

theorem resolution_order_witness:
  "url_cache (url row_a) = Some (GEntry (Some 51) (Some 6)) \<and>
   resolve_latlon ascii_rt helmond_services row_a url_cache world0
     = Inr (Some (Some 51, Some 6), url_cache, world0) \<and>
   addr_cache (url row_a) = None \<and>
   addr_cache (guess_address_variants ascii_rt row_a ! 0) = None \<and>
   addr_cache (guess_address_variants ascii_rt row_a ! 1) = Some (GEntry (Some 51) (Some 6)) \<and>
   resolve_latlon ascii_rt helmond_services row_a addr_cache world0
     = Inr (Some (Some 51, Some 6), addr_cache, world0) \<and>
   nth_answer helmond_services [] (guess_address_variants ascii_rt row_a) 0 = None \<and>
   nth_answer helmond_services [] (guess_address_variants ascii_rt row_a) 1 = Some (51, 6) \<and>
   (\<exists>gc' w'. resolve_latlon ascii_rt helmond_services row_a Map.empty world0
       = Inr (Some (Some 51, Some 6), gc', w') \<and>
     geo_calls w' = map ustr [''Rendierlaan 6, 5704 DC helmond, Nederland'',
                              ''5704 DC helmond, Nederland'']) \<and>
   (\<exists>w'. resolve_latlon ascii_rt no_services row_a Map.empty world0 = Inr (None, Map.empty, w') \<and>
     geo_calls w' = guess_address_variants ascii_rt row_a \<and>
     enrich_rows ascii_rt no_services (51, 6) [row_a] [] Map.empty Map.empty world0
       = Inr ([], w'))"
proof -
  note v = variants_row_a
  have u: "url_cache (url row_a) = Some (GEntry (Some 51) (Some 6))"
    by (simp add: url_cache_def)
  have c1: "resolve_latlon ascii_rt helmond_services row_a url_cache world0
     = Inr (Some (Some 51, Some 6), url_cache, world0)"
    using resolution_order [where U = ascii_rt and E = helmond_services and r = row_a and gc = url_cache
        and w = world0 and la = "Some 51" and lo = "Some 6"] u
    by (simp add: Let_def)
  have a: "addr_cache (url row_a) = None \<and>
     addr_cache (guess_address_variants ascii_rt row_a ! 0) = None \<and>
     addr_cache (guess_address_variants ascii_rt row_a ! 1) = Some (GEntry (Some 51) (Some 6))"
    unfolding v by (simp add: addr_cache_def row_a_def blank_row_def ustr_def)
  have c2: "resolve_latlon ascii_rt helmond_services row_a addr_cache world0
     = Inr (Some (Some 51, Some 6), addr_cache, world0)"
    using resolution_order [where U = ascii_rt and E = helmond_services and r = row_a and gc = addr_cache
        and w = world0 and la = "Some 51" and lo = "Some 6" and i = 1] a
    by (simp add: Let_def v)
  have n: "nth_answer helmond_services [] (guess_address_variants ascii_rt row_a) 0 = None \<and>
     nth_answer helmond_services [] (guess_address_variants ascii_rt row_a) 1 = Some (51, 6)"
    by (simp add: v nth_answer_def helmond_services_def no_services_def ustr_def)
  have g: "geo_calls world0 = []" by (simp add: world0_def)
  have c3: "\<exists>gc' w'. resolve_latlon ascii_rt helmond_services row_a Map.empty world0
       = Inr (Some (Some 51, Some 6), gc', w') \<and>
     geo_calls w' = map ustr [''Rendierlaan 6, 5704 DC helmond, Nederland'',
                              ''5704 DC helmond, Nederland'']"
    using resolution_order [where U = ascii_rt and E = helmond_services and r = row_a and gc = Map.empty
        and w = world0 and x = 51 and y = 6 and i = 1] n
    by (simp add: Let_def g v)
  have c4: "\<exists>w'. resolve_latlon ascii_rt no_services row_a Map.empty world0 = Inr (None, Map.empty, w') \<and>
     geo_calls w' = guess_address_variants ascii_rt row_a \<and>
     enrich_rows ascii_rt no_services (51, 6) [row_a] [] Map.empty Map.empty world0
       = Inr ([], w')"
    using resolution_order [where U = ascii_rt and E = no_services and r = row_a and gc = Map.empty
        and w = world0 and c = "(51, 6)" and rs = "[]" and enriched = "[]" and rc = Map.empty]
    by (simp add: Let_def g nth_answer_def no_services_def)
  show ?thesis using u c1 a c2 n c3 c4 by blast
qed

theorem fresh_geocode_cached_witness:
  "Map.empty (url row_a) = (None :: geo_entry option) \<and>
   cache_lookup Map.empty (guess_address_variants ascii_rt row_a) = Inr None \<and>
   try_geocode helmond_services (guess_address_variants ascii_rt row_a) world0
     = (Some (51, 6, ustr ''5704 DC helmond, Nederland''),
        world0\<lparr>geo_calls := map ustr [''Rendierlaan 6, 5704 DC helmond, Nederland'',
                                      ''5704 DC helmond, Nederland'']\<rparr>) \<and>
   (\<exists>gc' w'. resolve_latlon ascii_rt helmond_services row_a Map.empty world0
        = Inr (Some (Some 51, Some 6), gc', w') \<and>
      gc' (url row_a) = Some (GEntry (Some 51) (Some 6)) \<and>
      gc' (ustr ''5704 DC helmond, Nederland'') = Some (GEntry (Some 51) (Some 6)) \<and>
      geo_file w' = Dict gc' \<and>
      url row_b = url row_a \<and>
      resolve_latlon ascii_rt helmond_services row_b gc' w'
        = Inr (Some (Some 51, Some 6), gc', w'))"
proof -
  note v = variants_row_a
  have l: "cache_lookup Map.empty (guess_address_variants ascii_rt row_a) = Inr None"
    by (simp add: v)
  have t: "try_geocode helmond_services (guess_address_variants ascii_rt row_a) world0
     = (Some (51, 6, ustr ''5704 DC helmond, Nederland''),
        world0\<lparr>geo_calls := map ustr [''Rendierlaan 6, 5704 DC helmond, Nederland'',
                                      ''5704 DC helmond, Nederland'']\<rparr>)"
    by (simp add: v geocode_def helmond_services_def no_services_def world0_def ustr_def)
  have e: "Map.empty (url row_a) = (None :: geo_entry option)" by simp
  have b: "url row_b = url row_a" by (simp add: row_a_def row_b_def)
  show ?thesis
    using fresh_geocode_cached [OF e l t] e l t b by blast
qed

end
